theory Spec2Isabelle
  imports Main "HOL-Library.Multiset"
begin

section \<open>Data model\<close>

text \<open>
  The application \<^verbatim>\<open>app.py\<close> is a set of Flask route handlers over two tables
  (users, messages) and two association tables (follows, likes), with a server-side
  session holding the id of the logged-in user under the key \<^verbatim>\<open>CURR_USER_KEY\<close>.
  Every handler is modelled as a function from the state before the request and the
  request to the state after it and the response.
\<close>

record user =
  uid :: nat
  username :: string
  email :: string
  password :: string
  bio :: "string option"
  image_url :: string
  header_image_url :: string

record message =
  mid :: nat
  text_m :: string
  timestamp :: int
  user_id :: nat

text \<open>
  The tables are lists of rows. A row of \<open>follows\<close> is (follower id, followed id); a row
  of \<open>likes\<close> is (user id, message id). \<open>next_user_id\<close> and \<open>next_message_id\<close> stand for
  the serial primary keys. \<open>curr_user\<close> is \<^verbatim>\<open>session.get(CURR_USER_KEY)\<close>, and
  \<open>flashes\<close> the queue of flashed (message, category) pairs.
\<close>

record state =
  users :: "user list"
  messages :: "message list"
  follows :: "(nat \<times> nat) list"
  likes :: "(nat \<times> nat) list"
  next_user_id :: nat
  next_message_id :: nat
  curr_user :: "nat option"
  flashes :: "(string \<times> string) list"

datatype http_method = GET | POST

text \<open>
  A request: its method, whether the CSRF token it carries validates against the session,
  the verdict of the field validators of the form class concerned, the form fields the
  handlers read, and the clock. \<^verbatim>\<open>forms.py\<close> is not among the sources, so the verdict of
  its validators is an input. \<open>form_came_from\<close> is \<open>None\<close> when the form has no
  \<^verbatim>\<open>came-from\<close> key.
\<close>

record request =
  meth :: http_method
  csrf_token_ok :: bool
  fields_ok :: bool
  form_username :: string
  form_password :: string
  form_email :: string
  form_image_url :: string
  form_header_image_url :: string
  form_bio :: string
  form_text :: string
  form_came_from :: "string option"
  now :: int

text \<open>
  What the application takes from outside \<^verbatim>\<open>app.py\<close>: the password hashing of bcrypt and
  the two default image addresses of \<^verbatim>\<open>models.py\<close>.
\<close>

record env =
  generate_password_hash :: "string \<Rightarrow> string"
  check_password_hash :: "string \<Rightarrow> string \<Rightarrow> bool"
  DEFAULT_IMAGE_URL :: string
  DEFAULT_HEADER_IMAGE_URL :: string

datatype exn = ValueError | IntegrityError

text \<open>
  A response: a rendered template (the home page with the messages it is given), a
  redirect, one of the HTTP errors the handlers end with (\<open>Unauthorized\<close> is 401, whether
  the handler raises it or returns it; \<open>NotFound\<close> is 404, \<open>BadRequest\<close> 400), or an
  exception no handler catches (500).
\<close>

datatype response =
    Render string
  | RenderHome "message list"
  | Redirect string
  | Unauthorized
  | NotFound
  | BadRequest
  | Uncaught exn

section \<open>Helpers\<close>

definition digit_char :: "nat \<Rightarrow> char" where
  "digit_char n = ''0123456789'' ! n"

text \<open>Python's \<^verbatim>\<open>str\<close> on a non-negative integer, as the f-strings of the redirects use it.\<close>

function str_nat :: "nat \<Rightarrow> string" where
  "str_nat n = (if n < 10 then [digit_char n] else str_nat (n div 10) @ [digit_char (n mod 10)])"
  by pat_completeness auto
termination
  by (relation "measure (\<lambda>n. n)") auto

declare str_nat.simps [simp del]

text \<open>\<^verbatim>\<open>a or b\<close> on strings: the empty string is falsy.\<close>

definition py_or :: "string \<Rightarrow> string \<Rightarrow> string" where
  "py_or a b = (if a = [] then b else a)"

text \<open>\<^verbatim>\<open>list.remove(x)\<close>: removes the first occurrence, raises ValueError when there is none.\<close>

definition py_remove :: "'a \<Rightarrow> 'a list \<Rightarrow> exn + 'a list" where
  "py_remove x xs = (if x \<in> set xs then Inr (remove1 x xs) else Inl ValueError)"

definition flash :: "string \<Rightarrow> string \<Rightarrow> state \<Rightarrow> state" where
  "flash msg category st = st\<lparr>flashes := flashes st @ [(msg, category)]\<rparr>"

definition User_query_get :: "state \<Rightarrow> nat \<Rightarrow> user option" where
  "User_query_get st i = find (\<lambda>u. uid u = i) (users st)"

definition Message_query_get :: "state \<Rightarrow> nat \<Rightarrow> message option" where
  "Message_query_get st i = find (\<lambda>m. mid m = i) (messages st)"

text \<open>\<^verbatim>\<open>add_user_to_g\<close>: the user of the session, if the session names one that exists.\<close>

definition add_user_to_g :: "state \<Rightarrow> user option" where
  "add_user_to_g st =
     (case curr_user st of
        Some i \<Rightarrow> User_query_get st i
      | None \<Rightarrow> None)"

definition do_login :: "user \<Rightarrow> state \<Rightarrow> state" where
  "do_login u st = st\<lparr>curr_user := Some (uid u)\<rparr>"

definition do_logout :: "state \<Rightarrow> state" where
  "do_logout st = (if curr_user st \<noteq> None then st\<lparr>curr_user := None\<rparr> else st)"

text \<open>
  \<^verbatim>\<open>validate_on_submit\<close> of the bare CSRF form: the request is a submission and its token
  validates. Of a form with fields: the field validators pass as well.
\<close>

definition csrf_validate_on_submit :: "request \<Rightarrow> bool" where
  "csrf_validate_on_submit req = (meth req = POST \<and> csrf_token_ok req)"

definition form_validate_on_submit :: "request \<Rightarrow> bool" where
  "form_validate_on_submit req = (meth req = POST \<and> csrf_token_ok req \<and> fields_ok req)"

text \<open>The relationships \<^verbatim>\<open>user.following\<close> and \<^verbatim>\<open>user.liked_messages\<close>, as lists of ids.\<close>

definition following :: "state \<Rightarrow> nat \<Rightarrow> nat list" where
  "following st u = map snd (filter (\<lambda>p. fst p = u) (follows st))"

definition liked_messages :: "state \<Rightarrow> nat \<Rightarrow> nat list" where
  "liked_messages st u = map snd (filter (\<lambda>p. fst p = u) (likes st))"

section \<open>The object-relational layer\<close>

text \<open>
  Modelled from the spec: \<^verbatim>\<open>models.py\<close> (the tables, their constraints and the class
  methods \<^verbatim>\<open>User.signup\<close> and \<^verbatim>\<open>User.authenticate\<close>) is not among the sources.
  The spec gives a user a unique username and a unique email: writing a row whose username
  or email another row already has is a database integrity conflict.
\<close>

definition conflicts :: "user \<Rightarrow> user list \<Rightarrow> bool" where
  "conflicts u others =
     (username u \<in> set (map username others) \<or> email u \<in> set (map email others))"

text \<open>
  Modelled from the spec: \<^verbatim>\<open>User.signup\<close> hashes the password and builds the row to insert;
  a new user has no bio and the default header image.
\<close>

definition User_signup :: "env \<Rightarrow> state \<Rightarrow> string \<Rightarrow> string \<Rightarrow> string \<Rightarrow> string \<Rightarrow> user" where
  "User_signup e st un pw em img =
     \<lparr>uid = next_user_id st, username = un, email = em,
      password = generate_password_hash e pw, bio = None,
      image_url = img, header_image_url = DEFAULT_HEADER_IMAGE_URL e\<rparr>"

text \<open>
  Modelled from the spec: committing the inserted user row fails with an integrity
  conflict when its username or its email is already in the table.
\<close>

definition commit_new_user :: "user \<Rightarrow> state \<Rightarrow> exn + state" where
  "commit_new_user u st =
     (if conflicts u (users st) then Inl IntegrityError
      else Inr (st\<lparr>users := users st @ [u], next_user_id := Suc (next_user_id st)\<rparr>))"

text \<open>
  Modelled from the spec: \<^verbatim>\<open>User.authenticate\<close> looks the username up and verifies the
  password against the stored hash; it returns the user, or nothing (\<^verbatim>\<open>False\<close>).
\<close>

definition User_authenticate :: "env \<Rightarrow> user list \<Rightarrow> string \<Rightarrow> string \<Rightarrow> user option" where
  "User_authenticate e us un pw =
     (case find (\<lambda>u. username u = un) us of
        None \<Rightarrow> None
      | Some u \<Rightarrow> if check_password_hash e (password u) pw then Some u else None)"

text \<open>The relationship \<^verbatim>\<open>user.messages\<close>.\<close>

definition user_messages :: "state \<Rightarrow> nat \<Rightarrow> message list" where
  "user_messages st u = filter (\<lambda>m. user_id m = u) (messages st)"

text \<open>
  Modelled from the spec: deleting a row takes along the association rows that refer to
  it (a follow or a like is an association row between two existing rows).
\<close>

definition db_delete_message :: "nat \<Rightarrow> state \<Rightarrow> state" where
  "db_delete_message i st =
     st\<lparr>messages := filter (\<lambda>m. mid m \<noteq> i) (messages st),
        likes := filter (\<lambda>p. snd p \<noteq> i) (likes st)\<rparr>"

definition db_delete_user :: "nat \<Rightarrow> state \<Rightarrow> state" where
  "db_delete_user i st =
     st\<lparr>users := filter (\<lambda>u. uid u \<noteq> i) (users st),
        follows := filter (\<lambda>p. fst p \<noteq> i \<and> snd p \<noteq> i) (follows st),
        likes := filter (\<lambda>p. fst p \<noteq> i) (likes st)\<rparr>"

text \<open>
  Writing a changed user object back: the row with its id is replaced, unless the new
  values conflict with another row.
\<close>

definition update_user :: "user \<Rightarrow> user list \<Rightarrow> exn + user list" where
  "update_user u us =
     (if conflicts u (filter (\<lambda>v. uid v \<noteq> uid u) us) then Inl IntegrityError
      else Inr (map (\<lambda>v. if uid v = uid u then u else v) us))"

section \<open>User signup, login, logout\<close>

definition signup :: "env \<Rightarrow> state \<Rightarrow> request \<Rightarrow> state \<times> response" where
  "signup e st req =
     (let st1 = do_logout st in
      if form_validate_on_submit req then
        (let user = User_signup e st1 (form_username req) (form_password req) (form_email req)
                      (py_or (form_image_url req) (DEFAULT_IMAGE_URL e)) in
         case commit_new_user user st1 of
           Inl IntegrityError \<Rightarrow>
             (flash ''Username already taken'' ''danger'' st1, Render ''users/signup.html'')
         | Inl ValueError \<Rightarrow> (st1, Uncaught ValueError)
         | Inr st2 \<Rightarrow> (do_login user st2, Redirect ''/''))
      else (st1, Render ''users/signup.html''))"

definition login :: "env \<Rightarrow> state \<Rightarrow> request \<Rightarrow> state \<times> response" where
  "login e st req =
     (if form_validate_on_submit req then
        (case User_authenticate e (users st) (form_username req) (form_password req) of
           Some user \<Rightarrow>
             (flash (''Hello, '' @ username user @ ''!'') ''success'' (do_login user st),
              Redirect ''/'')
         | None \<Rightarrow>
             (flash ''Invalid credentials.'' ''danger'' st, Render ''users/login.html''))
      else (st, Render ''users/login.html''))"

definition logout :: "state \<Rightarrow> request \<Rightarrow> state \<times> response" where
  "logout st req =
     (if csrf_validate_on_submit req
      then (flash ''Successfully logged out.'' ''message'' (do_logout st), Redirect ''/'')
      else (st, Unauthorized))"

section \<open>General user routes\<close>

definition start_following :: "state \<Rightarrow> request \<Rightarrow> nat \<Rightarrow> state \<times> response" where
  "start_following st req follow_id =
     (case add_user_to_g st of
        None \<Rightarrow> (flash ''Access unauthorized.'' ''danger'' st, Redirect ''/'')
      | Some g_user \<Rightarrow>
          if csrf_validate_on_submit req then
            (case User_query_get st follow_id of
               None \<Rightarrow> (st, NotFound)
             | Some followed_user \<Rightarrow>
                 (st\<lparr>follows := follows st @ [(uid g_user, uid followed_user)]\<rparr>,
                  Redirect (''/users/'' @ str_nat (uid g_user) @ ''/following'')))
          else (st, Unauthorized))"

definition stop_following :: "state \<Rightarrow> request \<Rightarrow> nat \<Rightarrow> state \<times> response" where
  "stop_following st req follow_id =
     (case User_query_get st follow_id of
        None \<Rightarrow> (st, NotFound)
      | Some followed_user \<Rightarrow>
          (case add_user_to_g st of
             None \<Rightarrow> (flash ''Access unauthorized.'' ''danger'' st, Redirect ''/'')
           | Some g_user \<Rightarrow>
               if uid followed_user \<notin> set (following st (uid g_user))
               then (flash ''Access unauthorized.'' ''danger'' st, Redirect ''/'')
               else if csrf_validate_on_submit req then
                 (case py_remove (uid g_user, uid followed_user) (follows st) of
                    Inl x \<Rightarrow> (st, Uncaught x)
                  | Inr fs \<Rightarrow>
                      (st\<lparr>follows := fs\<rparr>,
                       Redirect (''/users/'' @ str_nat (uid g_user) @ ''/following'')))
               else (st, Unauthorized)))"

text \<open>
  The profile edit assigns the submitted username to the user object before it
  authenticates. The query inside \<^verbatim>\<open>User.authenticate\<close> sees that pending change (the
  session flushes before a query), and the flush raises an integrity conflict when the
  username is another user's. Only \<^verbatim>\<open>db.session.commit()\<close> makes a change last: a
  request that ends without it leaves the tables as they were.
\<close>

definition authenticate_pending :: "env \<Rightarrow> state \<Rightarrow> user \<Rightarrow> string \<Rightarrow> exn + user option" where
  "authenticate_pending e st user1 pw =
     (case update_user user1 (users st) of
        Inl x \<Rightarrow> Inl x
      | Inr pending \<Rightarrow> Inr (User_authenticate e pending (username user1) pw))"

definition handle_user_profile_edit :: "env \<Rightarrow> state \<Rightarrow> request \<Rightarrow> state \<times> response" where
  "handle_user_profile_edit e st req =
     (case add_user_to_g st of
        None \<Rightarrow> (flash ''Access unauthorized.'' ''danger'' st, Redirect ''/'')
      | Some user \<Rightarrow>
          if form_validate_on_submit req then
            (let user1 = user\<lparr>username := form_username req\<rparr> in
             case authenticate_pending e st user1 (form_password req) of
               Inl x \<Rightarrow> (st, Uncaught x)
             | Inr (Some _) \<Rightarrow>
                 (let user2 = user1
                        \<lparr>email := form_email req,
                         bio := Some (form_bio req),
                         image_url := py_or (form_image_url req) (DEFAULT_IMAGE_URL e),
                         header_image_url :=
                           py_or (form_header_image_url req) (DEFAULT_HEADER_IMAGE_URL e)\<rparr>
                  in case update_user user2 (users st) of
                       Inl x \<Rightarrow> (st, Uncaught x)
                     | Inr committed \<Rightarrow>
                         (st\<lparr>users := committed\<rparr>,
                          Redirect (''/users/'' @ str_nat (uid user))))
             | Inr None \<Rightarrow>
                 (flash ''Invalid password'' ''message'' st, Render ''users/edit.html''))
          else (flash ''Invalid password'' ''message'' st, Render ''users/edit.html''))"

definition delete_user :: "state \<Rightarrow> request \<Rightarrow> state \<times> response" where
  "delete_user st req =
     (case add_user_to_g st of
        None \<Rightarrow> (flash ''Access unauthorized.'' ''danger'' st, Redirect ''/'')
      | Some g_user \<Rightarrow>
          if csrf_validate_on_submit req then
            (let st1 = do_logout st;
                 st2 = fold (\<lambda>m. db_delete_message (mid m)) (user_messages st1 (uid g_user)) st1;
                 st3 = db_delete_user (uid g_user) st2
             in (flash (''We'' @ [CHR 0x27] @ ''ll miss you!'') ''message'' st3,
                 Redirect ''/signup''))
          else (st, Unauthorized))"

section \<open>Messages routes\<close>

definition add_message :: "state \<Rightarrow> request \<Rightarrow> state \<times> response" where
  "add_message st req =
     (case add_user_to_g st of
        None \<Rightarrow> (flash ''Access unauthorized.'' ''danger'' st, Redirect ''/'')
      | Some g_user \<Rightarrow>
          if form_validate_on_submit req then
            (let msg = \<lparr>mid = next_message_id st, text_m = form_text req,
                        timestamp = now req, user_id = uid g_user\<rparr>
             in (st\<lparr>messages := messages st @ [msg],
                    next_message_id := Suc (next_message_id st)\<rparr>,
                 Redirect (''/users/'' @ str_nat (uid g_user))))
          else (st, Render ''messages/create.html''))"

definition delete_message :: "state \<Rightarrow> request \<Rightarrow> nat \<Rightarrow> state \<times> response" where
  "delete_message st req message_id =
     (case add_user_to_g st of
        None \<Rightarrow> (flash ''Access unauthorized.'' ''danger'' st, Redirect ''/'')
      | Some g_user \<Rightarrow>
          (case Message_query_get st message_id of
             None \<Rightarrow> (st, NotFound)
           | Some msg \<Rightarrow>
               (db_delete_message (mid msg) st,
                Redirect (''/users/'' @ str_nat (uid g_user)))))"

section \<open>Likes\<close>

text \<open>
  Both handlers read \<^verbatim>\<open>request.form['came-from']\<close> first: a form without that key ends
  the request with 400 before anything else is looked at.
\<close>

definition like :: "state \<Rightarrow> request \<Rightarrow> nat \<Rightarrow> state \<times> response" where
  "like st req message_id =
     (case form_came_from req of
        None \<Rightarrow> (st, BadRequest)
      | Some came_from \<Rightarrow>
          (case add_user_to_g st of
             None \<Rightarrow> (flash ''Access unauthorized.'' ''danger'' st, Redirect ''/'')
           | Some g_user \<Rightarrow>
               if csrf_validate_on_submit req then
                 (case Message_query_get st message_id of
                    None \<Rightarrow> (st, NotFound)
                  | Some msg \<Rightarrow>
                      if user_id msg \<noteq> uid g_user
                      then (st\<lparr>likes := likes st @ [(uid g_user, mid msg)]\<rparr>,
                            Redirect came_from)
                      else (flash ''High-fiving yourself is not a good look.'' ''message'' st,
                            Redirect came_from))
               else (st, Unauthorized)))"

definition remove_like :: "state \<Rightarrow> request \<Rightarrow> nat \<Rightarrow> state \<times> response" where
  "remove_like st req message_id =
     (case form_came_from req of
        None \<Rightarrow> (st, BadRequest)
      | Some came_from \<Rightarrow>
          (case add_user_to_g st of
             None \<Rightarrow> (flash ''Access unauthorized.'' ''danger'' st, Redirect ''/'')
           | Some g_user \<Rightarrow>
               if csrf_validate_on_submit req then
                 (case Message_query_get st message_id of
                    None \<Rightarrow> (st, NotFound)
                  | Some msg \<Rightarrow>
                      (case py_remove (uid g_user, mid msg) (likes st) of
                         Inl x \<Rightarrow> (st, Uncaught x)
                       | Inr ls \<Rightarrow> (st\<lparr>likes := ls\<rparr>, Redirect came_from)))
               else (st, Unauthorized)))"

section \<open>Homepage\<close>

text \<open>
  The feed query: the messages whose owner is in \<open>valid_ids\<close>, most recent first, the
  first 100 of them. Rows of equal timestamp keep their table order.
\<close>

definition homepage :: "state \<Rightarrow> state \<times> response" where
  "homepage st =
     (case add_user_to_g st of
        Some g_user \<Rightarrow>
          (let valid_ids = following st (uid g_user) @ [uid g_user];
               msgs = take 100
                        (sort_key (\<lambda>m. - timestamp m)
                           (filter (\<lambda>m. user_id m \<in> set valid_ids) (messages st)))
           in (st, RenderHome msgs))
      | None \<Rightarrow> (st, Render ''home-anon.html''))"

section \<open>A concrete instance\<close>

text \<open>
  The fixture of the repository's model tests: users \<open>u1\<close> and \<open>u2\<close> with the password
  \<^verbatim>\<open>password\<close>, and one message of \<open>u1\<close>. The hash is a stand-in for bcrypt.
\<close>

definition test_env :: env where
  "test_env =
     \<lparr>generate_password_hash = (\<lambda>p. ''$2b$'' @ p),
      check_password_hash = (\<lambda>h p. h = ''$2b$'' @ p),
      DEFAULT_IMAGE_URL = ''/static/images/default-pic.png'',
      DEFAULT_HEADER_IMAGE_URL = ''/static/images/warbler-hero.jpg''\<rparr>"

definition u1 :: user where
  "u1 = \<lparr>uid = 1, username = ''u1'', email = ''u1@email.com'', password = ''$2b$password'',
         bio = None, image_url = ''/static/images/default-pic.png'',
         header_image_url = ''/static/images/warbler-hero.jpg''\<rparr>"

definition u2 :: user where
  "u2 = \<lparr>uid = 2, username = ''u2'', email = ''u2@email.com'', password = ''$2b$password'',
         bio = None, image_url = ''/static/images/default-pic.png'',
         header_image_url = ''/static/images/warbler-hero.jpg''\<rparr>"

definition m1 :: message where
  "m1 = \<lparr>mid = 1, text_m = ''test message'', timestamp = 1000, user_id = 1\<rparr>"

definition test_db :: "nat option \<Rightarrow> state" where
  "test_db logged_in =
     \<lparr>users = [u1, u2], messages = [m1], follows = [], likes = [],
      next_user_id = 3, next_message_id = 2, curr_user = logged_in, flashes = []\<rparr>"

text \<open>A form submission with a valid token and valid fields, and one without a valid token.\<close>

definition post_req :: request where
  "post_req =
     \<lparr>meth = POST, csrf_token_ok = True, fields_ok = True,
      form_username = ''u3'', form_password = ''password'', form_email = ''u3@email.com'',
      form_image_url = [], form_header_image_url = [], form_bio = ''hello'',
      form_text = ''test message 2'', form_came_from = Some ''/'', now = 2000\<rparr>"

definition forged_req :: request where
  "forged_req = post_req\<lparr>csrf_token_ok := False\<rparr>"

text \<open>
  The fixture with \<open>u1\<close> following \<open>u2\<close>, who has posted a message, and the fixture with
  101 messages of \<open>u1\<close>.
\<close>

definition m2 :: message where
  "m2 = \<lparr>mid = 2, text_m = ''test message 2'', timestamp = 2000, user_id = 2\<rparr>"

definition following_db :: state where
  "following_db =
     (test_db (Some 1))\<lparr>follows := [(1, 2)], messages := [m1, m2], next_message_id := 3\<rparr>"

definition busy_db :: state where
  "busy_db =
     (test_db (Some 1))
       \<lparr>messages :=
          map (\<lambda>i. \<lparr>mid = i, text_m = ''test message'', timestamp = int i, user_id = 1\<rparr>)
            [0..<101],
        next_message_id := 101\<rparr>"

section \<open>Notions of the specification\<close>

text \<open>
  The union the spec's home feed is taken from, in the spec's words: the user's own
  messages and the messages of the users the user follows.
\<close>

definition own_and_followed :: "state \<Rightarrow> nat \<Rightarrow> message list" where
  "own_and_followed st u =
     filter (\<lambda>m. user_id m = u \<or> (u, user_id m) \<in> set (follows st)) (messages st)"

text \<open>The messages the home page shows: those handed to its template, none otherwise.\<close>

definition feed :: "state \<Rightarrow> message list" where
  "feed st = (case snd (homepage st) of RenderHome msgs \<Rightarrow> msgs | _ \<Rightarrow> [])"

text \<open>
  No state change: the tables, the serial counters and the logged-in user of the session
  are what they were; only the queue of flashed messages may differ.
\<close>

definition unchanged :: "state \<Rightarrow> state \<Rightarrow> bool" where
  "unchanged st st' = (st' = st\<lparr>flashes := flashes st'\<rparr>)"

section \<open>Basic facts\<close>

lemmas fixture_defs =
  test_db_def u1_def u2_def m1_def m2_def post_req_def forged_req_def test_env_def
  following_db_def

lemma find_Some_holds: "find P xs = Some x \<Longrightarrow> P x"
  by (induction xs) (auto split: if_splits)


lemma g_user_row: "add_user_to_g st = Some u \<Longrightarrow> User_query_get st (uid u) = Some u"
  by (auto simp: add_user_to_g_def User_query_get_def split: option.splits dest: find_Some_holds)

lemma User_query_get_uid: "User_query_get st i = Some u \<Longrightarrow> uid u = i"
  by (auto simp: User_query_get_def dest: find_Some_holds)

lemma Message_query_get_mid: "Message_query_get st i = Some m \<Longrightarrow> mid m = i"
  by (auto simp: Message_query_get_def dest: find_Some_holds)

lemma add_user_to_g_flash [simp]: "add_user_to_g (flash msg c st) = add_user_to_g st"
  by (simp add: flash_def add_user_to_g_def User_query_get_def split: option.splits)

lemma flash_fields [simp]:
  "users (flash msg c st) = users st"
  "messages (flash msg c st) = messages st"
  "follows (flash msg c st) = follows st"
  "likes (flash msg c st) = likes st"
  "curr_user (flash msg c st) = curr_user st"
  by (simp_all add: flash_def)

lemma str_nat_1: "str_nat 1 = ''1''"
  by (simp add: str_nat.simps digit_char_def)

lemma str_nat_2: "str_nat 2 = ''2''"
  by (simp add: str_nat.simps digit_char_def)

lemma fixture_g_user_1: "add_user_to_g (test_db (Some 1)) = Some u1"
  by (simp add: add_user_to_g_def User_query_get_def fixture_defs)

lemma fixture_g_user_2: "add_user_to_g (test_db (Some 2)) = Some u2"
  by (simp add: add_user_to_g_def User_query_get_def fixture_defs)

lemma following_db_g_user: "add_user_to_g following_db = Some u1"
  by (simp add: add_user_to_g_def User_query_get_def fixture_defs)

lemma fixture_message_1: "Message_query_get (test_db s) 1 = Some m1"
  by (simp add: Message_query_get_def fixture_defs)

lemma post_req_csrf: "csrf_validate_on_submit post_req"
  by (simp add: csrf_validate_on_submit_def post_req_def)

section \<open>Deleting a message\<close>

text \<open>
  C1. The claim: a delete request from a logged-in user who does not own the message does
  not delete it. The handler never compares the owner of the message with the requester:
  in the fixture, \<open>u2\<close> is logged in, message 1 belongs to \<open>u1\<close>, and the request of \<open>u2\<close>
  deletes it.
\<close>

theorem delete_message_by_other_user:
  "add_user_to_g (test_db (Some 2)) = Some u2 \<and>
   Message_query_get (test_db (Some 2)) 1 = Some m1 \<and>
   user_id m1 \<noteq> uid u2 \<and>
   delete_message (test_db (Some 2)) post_req 1 =
     ((test_db (Some 2))\<lparr>messages := []\<rparr>, Redirect ''/users/2'') \<and>
   Message_query_get (fst (delete_message (test_db (Some 2)) post_req 1)) 1 = None"
proof -
  have d: "delete_message (test_db (Some 2)) post_req 1 =
             ((test_db (Some 2))\<lparr>messages := []\<rparr>, Redirect ''/users/2'')"
    by (simp add: delete_message_def fixture_g_user_2 fixture_message_1 str_nat_2
          del: One_nat_def)
       (simp add: db_delete_message_def str_nat_2 fixture_defs)
  show ?thesis
    by (simp add: d fixture_g_user_2 fixture_message_1 del: One_nat_def)
       (simp add: Message_query_get_def fixture_defs)
qed

section \<open>Following\<close>

text \<open>
  C8. Self-follow is not blocked: a logged-in user who does not follow themselves yet and
  posts a follow of their own id with a valid token gets the row (own id, own id) added
  and is redirected to their following page; they are then in their own following list.
\<close>

theorem start_following_self:
  assumes "add_user_to_g st = Some u"
    and "csrf_validate_on_submit req"
    and "uid u \<notin> set (following st (uid u))"
  shows "start_following st req (uid u) =
           (st\<lparr>follows := follows st @ [(uid u, uid u)]\<rparr>,
            Redirect (''/users/'' @ str_nat (uid u) @ ''/following'')) \<and>
         uid u \<in> set (following (fst (start_following st req (uid u))) (uid u))"
  using assms g_user_row [OF assms(1)] by (simp add: start_following_def following_def)

theorem start_following_self_witness:
  "add_user_to_g (test_db (Some 1)) = Some u1 \<and>
   1 \<notin> set (following (test_db (Some 1)) 1) \<and>
   start_following (test_db (Some 1)) post_req 1 =
     ((test_db (Some 1))\<lparr>follows := [(1, 1)]\<rparr>, Redirect ''/users/1/following'') \<and>
   1 \<in> set (following (fst (start_following (test_db (Some 1)) post_req 1)) 1)"
proof -
  have n: "uid u1 \<notin> set (following (test_db (Some 1)) (uid u1))"
    by (simp add: following_def fixture_defs)
  have u: "uid u1 = 1"
    by (simp add: u1_def)
  have f: "follows (test_db (Some 1)) = []"
    by (simp add: test_db_def)
  show ?thesis
    using start_following_self [OF fixture_g_user_1 post_req_csrf n] fixture_g_user_1 n
    unfolding u f str_nat_1 by (simp add: following_def)
qed

section \<open>Likes\<close>

text \<open>
  C5. A user cannot like their own message. For a logged-in user, a message of theirs and
  a request with a valid token, the like handler leaves the likes table as it was. When
  the form has a \<^verbatim>\<open>came-from\<close> field it flashes the warning and redirects there; when the
  field is missing the request ends with 400 before anything is flashed.
\<close>

theorem like_own_message:
  assumes "add_user_to_g st = Some u"
    and "Message_query_get st i = Some m"
    and "user_id m = uid u"
    and "csrf_validate_on_submit req"
  shows "likes (fst (like st req i)) = likes st \<and>
         like st req i =
           (case form_came_from req of
              Some came_from \<Rightarrow>
                (flash ''High-fiving yourself is not a good look.'' ''message'' st,
                 Redirect came_from)
            | None \<Rightarrow> (st, BadRequest))"
  using assms by (simp add: like_def flash_def split: option.splits)

theorem like_own_message_witness:
  "add_user_to_g (test_db (Some 1)) = Some u1 \<and>
   Message_query_get (test_db (Some 1)) 1 = Some m1 \<and>
   user_id m1 = uid u1 \<and>
   likes (fst (like (test_db (Some 1)) post_req 1)) = [] \<and>
   like (test_db (Some 1)) post_req 1 =
     (flash ''High-fiving yourself is not a good look.'' ''message'' (test_db (Some 1)),
      Redirect ''/'')"
proof -
  have o: "user_id m1 = uid u1"
    by (simp add: m1_def u1_def)
  have c: "form_came_from post_req = Some ''/''"
    by (simp add: post_req_def)
  have l: "likes (test_db (Some 1)) = []"
    by (simp add: test_db_def)
  show ?thesis
    using like_own_message [OF fixture_g_user_1 fixture_message_1 o post_req_csrf]
    by (simp add: c l o fixture_g_user_1 fixture_message_1 flash_def del: One_nat_def)
qed

text \<open>
  The claim as it stands promises the warning for every request with a valid token; a
  request whose form lacks \<^verbatim>\<open>came-from\<close> gets 400 and no flash.
\<close>

theorem like_own_message_no_came_from:
  "add_user_to_g (test_db (Some 1)) = Some u1 \<and>
   Message_query_get (test_db (Some 1)) 1 = Some m1 \<and>
   user_id m1 = uid u1 \<and>
   csrf_validate_on_submit (post_req\<lparr>form_came_from := None\<rparr>) \<and>
   like (test_db (Some 1)) (post_req\<lparr>form_came_from := None\<rparr>) 1 =
     (test_db (Some 1), BadRequest) \<and>
   flashes (fst (like (test_db (Some 1)) (post_req\<lparr>form_came_from := None\<rparr>) 1)) = []"
  by (simp add: fixture_g_user_1 fixture_message_1 like_def del: One_nat_def)
     (simp add: csrf_validate_on_submit_def fixture_defs)

text \<open>
  C9. Removing a like the user never gave. For a logged-in user, an existing message that
  is not among their liked messages and a request with a valid token and a
  \<^verbatim>\<open>came-from\<close> field, the handler reaches \<^verbatim>\<open>liked_messages.remove\<close> with no membership
  check, and the removal raises ValueError; the tables stay as they were. Without the
  \<^verbatim>\<open>came-from\<close> field the request ends with 400 before the removal.
\<close>

theorem remove_like_not_liked:
  assumes "add_user_to_g st = Some u"
    and "Message_query_get st i = Some m"
    and "i \<notin> set (liked_messages st (uid u))"
    and "csrf_validate_on_submit req"
  shows "remove_like st req i =
           (case form_came_from req of
              Some came_from \<Rightarrow> (st, Uncaught ValueError)
            | None \<Rightarrow> (st, BadRequest))"
proof -
  have "(uid u, mid m) \<notin> set (likes st)"
    using assms(3) Message_query_get_mid [OF assms(2)] by (force simp: liked_messages_def)
  then show ?thesis
    using assms by (simp add: remove_like_def py_remove_def split: option.splits)
qed

theorem remove_like_not_liked_witness:
  "add_user_to_g (test_db (Some 2)) = Some u2 \<and>
   Message_query_get (test_db (Some 2)) 1 = Some m1 \<and>
   1 \<notin> set (liked_messages (test_db (Some 2)) (uid u2)) \<and>
   remove_like (test_db (Some 2)) post_req 1 = (test_db (Some 2), Uncaught ValueError)"
proof -
  have n: "1 \<notin> set (liked_messages (test_db (Some 2)) (uid u2))"
    by (simp add: liked_messages_def test_db_def)
  have c: "form_came_from post_req = Some ''/''"
    by (simp add: post_req_def)
  show ?thesis
    using remove_like_not_liked [OF fixture_g_user_2 fixture_message_1 n post_req_csrf]
    by (simp add: c n fixture_g_user_2 fixture_message_1 del: One_nat_def)
qed

theorem remove_like_no_came_from:
  "add_user_to_g (test_db (Some 2)) = Some u2 \<and>
   Message_query_get (test_db (Some 2)) 1 = Some m1 \<and>
   1 \<notin> set (liked_messages (test_db (Some 2)) (uid u2)) \<and>
   csrf_validate_on_submit (post_req\<lparr>form_came_from := None\<rparr>) \<and>
   remove_like (test_db (Some 2)) (post_req\<lparr>form_came_from := None\<rparr>) 1 =
     (test_db (Some 2), BadRequest)"
  by (simp add: fixture_g_user_2 fixture_message_1 remove_like_def del: One_nat_def)
     (simp add: csrf_validate_on_submit_def liked_messages_def fixture_defs)

section \<open>Signup\<close>

lemma User_signup_logout [simp]:
  "User_signup e (do_logout st) un pw em img = User_signup e st un pw em img"
  by (simp add: User_signup_def do_logout_def)

lemma signup_fresh:
  assumes "form_validate_on_submit r"
    and "form_username r \<notin> set (map username (users st))"
    and "form_email r \<notin> set (map email (users st))"
  shows "signup e st r =
           (st\<lparr>users := users st @
                  [User_signup e st (form_username r) (form_password r) (form_email r)
                     (py_or (form_image_url r) (DEFAULT_IMAGE_URL e))],
               next_user_id := Suc (next_user_id st),
               curr_user := Some (next_user_id st)\<rparr>, Redirect ''/'')"
  using assms
  by (simp add: signup_def Let_def commit_new_user_def conflicts_def do_login_def)
     (simp add: User_signup_def do_logout_def)

lemma signup_taken:
  assumes "form_validate_on_submit r"
    and "form_username r \<in> set (map username (users st))"
  shows "signup e st r =
           (flash ''Username already taken'' ''danger'' (do_logout st),
            Render ''users/signup.html'')"
  using assms
  by (simp add: signup_def Let_def commit_new_user_def conflicts_def User_signup_def
        do_logout_def)

text \<open>
  C6. Two signups with valid forms, distinct usernames and distinct emails, none of them
  in the table yet, both succeed: each redirects to the home page and the two usernames
  are appended to the table. A signup with a valid form whose username is in the table
  fails: the integrity conflict is caught, \<^verbatim>\<open>Username already taken\<close> is flashed, the signup
  form is rendered again and the users table is as it was.
\<close>

theorem signup_usernames:
  "(form_validate_on_submit r1 \<and> form_validate_on_submit r2 \<and>
    form_username r1 \<noteq> form_username r2 \<and> form_email r1 \<noteq> form_email r2 \<and>
    form_username r1 \<notin> set (map username (users st)) \<and>
    form_username r2 \<notin> set (map username (users st)) \<and>
    form_email r1 \<notin> set (map email (users st)) \<and>
    form_email r2 \<notin> set (map email (users st)) \<longrightarrow>
      snd (signup e st r1) = Redirect ''/'' \<and>
      snd (signup e (fst (signup e st r1)) r2) = Redirect ''/'' \<and>
      map username (users (fst (signup e (fst (signup e st r1)) r2))) =
        map username (users st) @ [form_username r1, form_username r2]) \<and>
   (form_validate_on_submit r \<and> form_username r \<in> set (map username (users st)) \<longrightarrow>
      signup e st r =
        (flash ''Username already taken'' ''danger'' (do_logout st),
         Render ''users/signup.html'') \<and>
      users (fst (signup e st r)) = users st)"
proof (intro conjI impI)
  assume a: "form_validate_on_submit r \<and> form_username r \<in> set (map username (users st))"
  show "signup e st r =
        (flash ''Username already taken'' ''danger'' (do_logout st),
         Render ''users/signup.html'')"
    using a signup_taken by blast
  then show "users (fst (signup e st r)) = users st"
    by (simp add: flash_def do_logout_def)
next
  assume a: "form_validate_on_submit r1 \<and> form_validate_on_submit r2 \<and>
    form_username r1 \<noteq> form_username r2 \<and> form_email r1 \<noteq> form_email r2 \<and>
    form_username r1 \<notin> set (map username (users st)) \<and>
    form_username r2 \<notin> set (map username (users st)) \<and>
    form_email r1 \<notin> set (map email (users st)) \<and>
    form_email r2 \<notin> set (map email (users st))"
  let ?v1 = "User_signup e st (form_username r1) (form_password r1) (form_email r1)
               (py_or (form_image_url r1) (DEFAULT_IMAGE_URL e))"
  have s1: "signup e st r1 =
           (st\<lparr>users := users st @ [?v1], next_user_id := Suc (next_user_id st),
               curr_user := Some (next_user_id st)\<rparr>, Redirect ''/'')"
    using signup_fresh [of r1 st e] a by blast
  have v1: "username ?v1 = form_username r1" "email ?v1 = form_email r1"
    by (simp_all add: User_signup_def)
  let ?st1 = "fst (signup e st r1)"
  have u1: "users ?st1 = users st @ [?v1]"
    by (simp add: s1)
  have "form_username r2 \<notin> set (map username (users ?st1))"
    and "form_email r2 \<notin> set (map email (users ?st1))"
    using a v1 by (auto simp: u1)
  then have s2: "signup e ?st1 r2 =
           (?st1\<lparr>users := users ?st1 @
                  [User_signup e ?st1 (form_username r2) (form_password r2) (form_email r2)
                     (py_or (form_image_url r2) (DEFAULT_IMAGE_URL e))],
               next_user_id := Suc (next_user_id ?st1),
               curr_user := Some (next_user_id ?st1)\<rparr>, Redirect ''/'')"
    using signup_fresh [of r2 ?st1 e] a by blast
  show "snd (signup e st r1) = Redirect ''/''"
    by (simp add: s1)
  show "snd (signup e ?st1 r2) = Redirect ''/''"
    by (simp add: s2)
  show "map username (users (fst (signup e ?st1 r2))) =
        map username (users st) @ [form_username r1, form_username r2]"
    by (simp add: s2 u1) (simp add: User_signup_def)
qed

theorem signup_usernames_witness:
  "snd (signup test_env (test_db None) post_req) = Redirect ''/'' \<and>
   snd (signup test_env (fst (signup test_env (test_db None) post_req))
          (post_req\<lparr>form_username := ''u4'', form_email := ''u4@email.com''\<rparr>)) = Redirect ''/'' \<and>
   map username
     (users (fst (signup test_env (fst (signup test_env (test_db None) post_req))
        (post_req\<lparr>form_username := ''u4'', form_email := ''u4@email.com''\<rparr>)))) =
     [''u1'', ''u2'', ''u3'', ''u4''] \<and>
   signup test_env (test_db None) (post_req\<lparr>form_username := ''u1''\<rparr>) =
     (flash ''Username already taken'' ''danger'' (test_db None), Render ''users/signup.html'') \<and>
   users (fst (signup test_env (test_db None) (post_req\<lparr>form_username := ''u1''\<rparr>))) = [u1, u2]"
proof -
  let ?r4 = "post_req\<lparr>form_username := ''u4'', form_email := ''u4@email.com''\<rparr>"
  let ?r1 = "post_req\<lparr>form_username := ''u1''\<rparr>"
  have v: "form_validate_on_submit post_req" "form_validate_on_submit ?r4"
    "form_validate_on_submit ?r1"
    by (simp_all add: form_validate_on_submit_def post_req_def)
  have f: "form_username post_req = ''u3''" "form_username ?r4 = ''u4''"
    "form_username ?r1 = ''u1''"
    "form_email post_req = ''u3@email.com''" "form_email ?r4 = ''u4@email.com''"
    by (simp_all add: post_req_def)
  have t: "map username (users (test_db None)) = [''u1'', ''u2'']"
    "map email (users (test_db None)) = [''u1@email.com'', ''u2@email.com'']"
    "do_logout (test_db None) = test_db None"
    by (simp_all add: test_db_def u1_def u2_def do_logout_def)
  have u: "users (test_db None) = [u1, u2]"
    by (simp add: test_db_def)
  have "snd (signup test_env (test_db None) post_req) = Redirect ''/'' \<and>
      snd (signup test_env (fst (signup test_env (test_db None) post_req)) ?r4) = Redirect ''/'' \<and>
      map username (users (fst (signup test_env (fst (signup test_env (test_db None) post_req)) ?r4))) =
        [''u1'', ''u2'', ''u3'', ''u4''] \<and>
      signup test_env (test_db None) ?r1 =
        (flash ''Username already taken'' ''danger'' (test_db None), Render ''users/signup.html'') \<and>
      users (fst (signup test_env (test_db None) ?r1)) = users (test_db None)"
    using signup_usernames [of post_req ?r4 "test_db None" test_env ?r1]
    unfolding f t using v by simp
  then show ?thesis unfolding u .
qed

text \<open>
  Distinct usernames alone do not make two signups succeed: a valid signup with a new
  username and the email of \<open>u1\<close> runs into the unique email, and is answered with the
  same \<^verbatim>\<open>Username already taken\<close>.
\<close>

theorem signup_same_email:
  "form_validate_on_submit (post_req\<lparr>form_email := ''u1@email.com''\<rparr>) \<and>
   form_username (post_req\<lparr>form_email := ''u1@email.com''\<rparr>)
     \<notin> set (map username (users (test_db None))) \<and>
   signup test_env (test_db None) (post_req\<lparr>form_email := ''u1@email.com''\<rparr>) =
     (flash ''Username already taken'' ''danger'' (test_db None), Render ''users/signup.html'')"
  by (simp add: signup_def Let_def commit_new_user_def conflicts_def User_signup_def
        do_logout_def form_validate_on_submit_def fixture_defs)


section \<open>Profile edit\<close>

text \<open>
  What a wrong password gets, for every logged-in user: the form again with
  \<^verbatim>\<open>Invalid password\<close> flashed and nothing changed, except for a valid submission whose
  username (assigned to the user object before the authentication) conflicts with another
  row, which ends in the uncaught integrity conflict, also with nothing changed.
\<close>

lemma authenticate_pending_own_row:
  assumes "update_user user1 us = Inr pending"
    and "\<not> check_password_hash e (password user1) pw"
  shows "User_authenticate e pending (username user1) pw = None"
proof (cases "find (\<lambda>v. username v = username user1) pending")
  case None
  then show ?thesis
    by (simp add: User_authenticate_def)
next
  case (Some v)
  have n: "\<not> conflicts user1 (filter (\<lambda>w. uid w \<noteq> uid user1) us)"
    and p: "pending = map (\<lambda>w. if uid w = uid user1 then user1 else w) us"
    using assms(1) by (auto simp: update_user_def split: if_splits)
  have "v \<in> set pending" and u: "username v = username user1"
    using Some by (auto simp: find_Some_iff)
  then obtain w where w: "w \<in> set us" "v = (if uid w = uid user1 then user1 else w)"
    unfolding p by auto
  have "v = user1"
  proof (rule ccontr)
    assume "v \<noteq> user1"
    then have "uid w \<noteq> uid user1" "v = w"
      using w(2) by (auto split: if_splits)
    then have "w \<in> set (filter (\<lambda>w. uid w \<noteq> uid user1) us)" "username w = username user1"
      using w(1) u by simp_all
    then have "username user1 \<in> set (map username (filter (\<lambda>w. uid w \<noteq> uid user1) us))"
      by (metis image_eqI set_map)
    then show False
      using n by (simp add: conflicts_def)
  qed
  then show ?thesis
    using Some assms(2) by (simp add: User_authenticate_def)
qed

lemma profile_edit_wrong_password:
  assumes "add_user_to_g st = Some u"
    and "\<not> check_password_hash e (password u) (form_password req)"
  shows "handle_user_profile_edit e st req =
           (if form_validate_on_submit req \<and>
               conflicts (u\<lparr>username := form_username req\<rparr>)
                 (filter (\<lambda>v. uid v \<noteq> uid u) (users st))
            then (st, Uncaught IntegrityError)
            else (flash ''Invalid password'' ''message'' st, Render ''users/edit.html''))"
proof (cases "form_validate_on_submit req")
  case False
  then show ?thesis
    using assms(1) by (simp add: handle_user_profile_edit_def)
next
  case True
  let ?u1 = "u\<lparr>username := form_username req\<rparr>"
  show ?thesis
  proof (cases "update_user ?u1 (users st)")
    case (Inl x)
    then have "conflicts ?u1 (filter (\<lambda>v. uid v \<noteq> uid u) (users st))" "x = IntegrityError"
      by (auto simp: update_user_def split: if_splits)
    then show ?thesis
      using assms(1) True Inl
      by (simp add: handle_user_profile_edit_def Let_def authenticate_pending_def)
  next
    case (Inr pending)
    then have n: "\<not> conflicts ?u1 (filter (\<lambda>v. uid v \<noteq> uid u) (users st))"
      by (auto simp: update_user_def split: if_splits)
    have "User_authenticate e pending (username ?u1) (form_password req) = None"
      using authenticate_pending_own_row [OF Inr] assms(2) by simp
    then show ?thesis
      using assms(1) True Inr n
      by (simp add: handle_user_profile_edit_def Let_def authenticate_pending_def)
  qed
qed

text \<open>
  C4. The claim: when the submitted password does not authenticate, every field of the
  user's record is left unchanged and the form is presented again with the
  invalid-password message. The record is left unchanged, but the form is not always
  presented again: in the fixture \<open>u1\<close> is logged in and submits a wrong password. With
  the username of \<open>u2\<close> the request ends in an uncaught integrity conflict (signup
  catches that conflict, this handler does not); with a free username it gets the form
  and the message.
\<close>

theorem profile_edit_taken_username:
  "add_user_to_g (test_db (Some 1)) = Some u1 \<and>
   form_validate_on_submit (post_req\<lparr>form_username := ''u2'', form_password := ''guess''\<rparr>) \<and>
   User_authenticate test_env (users (test_db (Some 1))) ''u1'' ''guess'' = None \<and>
   handle_user_profile_edit test_env (test_db (Some 1))
       (post_req\<lparr>form_username := ''u2'', form_password := ''guess''\<rparr>) =
     (test_db (Some 1), Uncaught IntegrityError) \<and>
   handle_user_profile_edit test_env (test_db (Some 1))
       (post_req\<lparr>form_username := ''renamed'', form_password := ''guess''\<rparr>) =
     (flash ''Invalid password'' ''message'' (test_db (Some 1)), Render ''users/edit.html'')"
proof -
  have v: "form_validate_on_submit (post_req\<lparr>form_username := ''u2'', form_password := ''guess''\<rparr>)"
    "form_validate_on_submit (post_req\<lparr>form_username := ''renamed'', form_password := ''guess''\<rparr>)"
    by (simp_all add: form_validate_on_submit_def post_req_def)
  have a: "User_authenticate test_env (users (test_db (Some 1))) ''u1'' ''guess'' = None"
    by (simp add: User_authenticate_def fixture_defs)
  have t: "handle_user_profile_edit test_env (test_db (Some 1))
       (post_req\<lparr>form_username := ''u2'', form_password := ''guess''\<rparr>) =
     (test_db (Some 1), Uncaught IntegrityError)"
    by (simp add: handle_user_profile_edit_def fixture_g_user_1 v Let_def del: One_nat_def)
       (simp add: authenticate_pending_def update_user_def conflicts_def fixture_defs)
  have r: "handle_user_profile_edit test_env (test_db (Some 1))
       (post_req\<lparr>form_username := ''renamed'', form_password := ''guess''\<rparr>) =
     (flash ''Invalid password'' ''message'' (test_db (Some 1)), Render ''users/edit.html'')"
    by (simp add: handle_user_profile_edit_def fixture_g_user_1 v Let_def del: One_nat_def)
       (simp add: authenticate_pending_def update_user_def conflicts_def User_authenticate_def
          fixture_defs)
  show ?thesis
    using v a t r fixture_g_user_1 by simp
qed

section \<open>Deleting a user\<close>





section \<open>The home feed\<close>

lemma valid_ids_filter:
  "filter (\<lambda>m. user_id m \<in> set (following st u @ [u])) (messages st) = own_and_followed st u"
  unfolding own_and_followed_def following_def
  by (rule filter_cong) force+

lemma homepage_logged_in:
  "add_user_to_g st = Some u \<Longrightarrow>
   homepage st =
     (st, RenderHome (take 100 (sort_key (\<lambda>m. - timestamp m) (own_and_followed st (uid u)))))"
  unfolding homepage_def Let_def valid_ids_filter by simp

lemma sort_key_recent_first:
  "sorted_wrt (\<lambda>a b. timestamp b \<le> timestamp a) (sort_key (\<lambda>m. - timestamp m) xs)"
proof -
  have "sorted (map (\<lambda>m. - timestamp m) (sort_key (\<lambda>m. - timestamp m) xs))"
    by (rule sorted_sort_key)
  then show ?thesis
    by (simp add: sorted_map)
qed

text \<open>
  C3. The home page. An anonymous request gets the anonymous page, which is given no
  messages. A logged-in user gets a feed of at most 100 messages, most recent first, all
  of them the user's own or of users the user follows. The feed is that whole union when
  the union has at most 100 messages; otherwise it is the union cut to its 100 most
  recent: it has exactly 100 messages, and the messages left out are no newer than any
  message shown.
\<close>

theorem homepage_feed:
  "(add_user_to_g st = None \<longrightarrow>
      homepage st = (st, Render ''home-anon.html'') \<and> feed st = []) \<and>
   (\<forall>u. add_user_to_g st = Some u \<longrightarrow>
      homepage st = (st, RenderHome (feed st)) \<and>
      length (feed st) \<le> 100 \<and>
      length (feed st) = min 100 (length (own_and_followed st (uid u))) \<and>
      sorted_wrt (\<lambda>a b. timestamp b \<le> timestamp a) (feed st) \<and>
      set (feed st) \<subseteq> set (own_and_followed st (uid u)) \<and>
      (length (own_and_followed st (uid u)) \<le> 100 \<longrightarrow>
         mset (feed st) = mset (own_and_followed st (uid u))) \<and>
      (\<exists>older. mset (own_and_followed st (uid u)) = mset (feed st) + mset older \<and>
         (\<forall>a \<in> set (feed st). \<forall>b \<in> set older. timestamp b \<le> timestamp a)))"
proof (intro conjI allI impI)
  assume "add_user_to_g st = None"
  then show "homepage st = (st, Render ''home-anon.html'')"
    by (simp add: homepage_def)
  then show "feed st = []"
    by (simp add: feed_def)
next
  fix u
  assume g: "add_user_to_g st = Some u"
  let ?all = "sort_key (\<lambda>m. - timestamp m) (own_and_followed st (uid u))"
  have f: "feed st = take 100 ?all"
    by (simp add: feed_def homepage_logged_in [OF g])
  show "homepage st = (st, RenderHome (feed st))"
    by (simp add: f homepage_logged_in [OF g])
  show "length (feed st) \<le> 100"
    by (simp add: f)
  show "length (feed st) = min 100 (length (own_and_followed st (uid u)))"
    by (simp add: f)
  have s: "sorted_wrt (\<lambda>a b. timestamp b \<le> timestamp a) ?all"
    by (rule sort_key_recent_first)
  show "sorted_wrt (\<lambda>a b. timestamp b \<le> timestamp a) (feed st)"
    unfolding f using s by (rule sorted_wrt_take)
  show "set (feed st) \<subseteq> set (own_and_followed st (uid u))"
    unfolding f using set_take_subset [of 100 ?all] by simp
  show "mset (feed st) = mset (own_and_followed st (uid u))"
    if "length (own_and_followed st (uid u)) \<le> 100"
    using that by (simp add: f)
  have "sorted_wrt (\<lambda>a b. timestamp b \<le> timestamp a) (take 100 ?all @ drop 100 ?all)"
    using s by simp
  then have o: "\<forall>a \<in> set (take 100 ?all). \<forall>b \<in> set (drop 100 ?all). timestamp b \<le> timestamp a"
    unfolding sorted_wrt_append by blast
  have "mset (own_and_followed st (uid u)) = mset (take 100 ?all @ drop 100 ?all)"
    by simp
  then have "mset (own_and_followed st (uid u)) = mset (feed st) + mset (drop 100 ?all)"
    unfolding f by (simp only: mset_append)
  then show "\<exists>older. mset (own_and_followed st (uid u)) = mset (feed st) + mset older \<and>
         (\<forall>a \<in> set (feed st). \<forall>b \<in> set older. timestamp b \<le> timestamp a)"
    using o unfolding f by blast
qed

theorem homepage_feed_witness:
  "add_user_to_g following_db = Some u1 \<and>
   own_and_followed following_db (uid u1) = [m1, m2] \<and>
   homepage following_db = (following_db, RenderHome (feed following_db)) \<and>
   length (feed following_db) \<le> 100 \<and>
   length (feed following_db) = 2 \<and>
   mset (feed following_db) = {#m1, m2#} \<and>
   add_user_to_g (test_db None) = None \<and>
   homepage (test_db None) = (test_db None, Render ''home-anon.html'') \<and>
   feed (test_db None) = []"
proof -
  have o: "own_and_followed following_db (uid u1) = [m1, m2]"
    by (simp add: own_and_followed_def fixture_defs)
  have n: "add_user_to_g (test_db None) = None"
    by (simp add: add_user_to_g_def test_db_def)
  have h: "homepage following_db = (following_db, RenderHome (feed following_db)) \<and>
      length (feed following_db) \<le> 100 \<and>
      length (feed following_db) = min 100 (length (own_and_followed following_db (uid u1))) \<and>
      (length (own_and_followed following_db (uid u1)) \<le> 100 \<longrightarrow>
         mset (feed following_db) = mset (own_and_followed following_db (uid u1)))"
    using homepage_feed [of following_db] following_db_g_user by blast
  have a: "homepage (test_db None) = (test_db None, Render ''home-anon.html'') \<and>
      feed (test_db None) = []"
    using homepage_feed [of "test_db None"] n by blast
  have "mset (feed following_db) = {#m1, m2#}"
    using h by (simp add: o)
  then show ?thesis
    using h a n o following_db_g_user by simp
qed

text \<open>
  The feed is not the union itself once the union has more than 100 messages: with 101
  messages of the logged-in user the feed shows 100 of them.
\<close>

lemma busy_db_g_user: "add_user_to_g busy_db = Some u1"
  by (simp add: busy_db_def add_user_to_g_def User_query_get_def fixture_defs)

lemma busy_db_own: "own_and_followed busy_db 1 = messages busy_db"
  by (simp add: own_and_followed_def busy_db_def del: One_nat_def upt_Suc)

lemma busy_db_distinct: "distinct (messages busy_db)"
  by (simp add: busy_db_def distinct_map inj_on_def del: upt_Suc)

theorem homepage_feed_capped:
  "add_user_to_g busy_db = Some u1 \<and>
   length (own_and_followed busy_db (uid u1)) = 101 \<and>
   length (feed busy_db) = 100 \<and>
   set (feed busy_db) \<noteq> set (own_and_followed busy_db (uid u1))"
proof -
  have u: "uid u1 = 1"
    by (simp add: u1_def)
  have l: "length (own_and_followed busy_db 1) = 101"
    unfolding busy_db_own by (simp add: busy_db_def)
  have f: "length (feed busy_db) = 100"
    by (simp add: feed_def homepage_logged_in [OF busy_db_g_user] u l del: One_nat_def)
  have "card (set (own_and_followed busy_db 1)) = 101"
    using busy_db_distinct l unfolding busy_db_own by (simp add: distinct_card)
  moreover have "card (set (feed busy_db)) \<le> 100"
    using card_length [of "feed busy_db"] f by simp
  ultimately have "set (feed busy_db) \<noteq> set (own_and_followed busy_db 1)"
    by auto
  then show ?thesis
    using busy_db_g_user l f u by simp
qed

section \<open>Requests without a valid CSRF token\<close>

lemma unchanged_same [simp]: "unchanged st st"
  by (simp add: unchanged_def)

lemma unchanged_flash [simp]: "unchanged st (flash msg c st)"
  by (simp add: unchanged_def flash_def)

lemma no_token_csrf: "\<not> csrf_token_ok req \<Longrightarrow> \<not> csrf_validate_on_submit req"
  by (simp add: csrf_validate_on_submit_def)

lemma no_token_form: "\<not> csrf_token_ok req \<Longrightarrow> \<not> form_validate_on_submit req"
  by (simp add: form_validate_on_submit_def)

lemma no_token_logout: "\<not> csrf_token_ok req \<Longrightarrow> logout st req = (st, Unauthorized)"
  by (simp add: logout_def no_token_csrf)

lemma no_token_delete_user:
  "\<not> csrf_token_ok req \<Longrightarrow>
   delete_user st req =
     (case add_user_to_g st of
        None \<Rightarrow> (flash ''Access unauthorized.'' ''danger'' st, Redirect ''/'')
      | Some _ \<Rightarrow> (st, Unauthorized))"
  by (simp add: delete_user_def no_token_csrf split: option.splits)

lemma no_token_start_following:
  "\<not> csrf_token_ok req \<Longrightarrow>
   start_following st req i =
     (case add_user_to_g st of
        None \<Rightarrow> (flash ''Access unauthorized.'' ''danger'' st, Redirect ''/'')
      | Some _ \<Rightarrow> (st, Unauthorized))"
  by (simp add: start_following_def no_token_csrf split: option.splits)

lemma no_token_stop_following:
  "\<not> csrf_token_ok req \<Longrightarrow>
   stop_following st req i =
     (case User_query_get st i of
        None \<Rightarrow> (st, NotFound)
      | Some _ \<Rightarrow>
          (case add_user_to_g st of
             None \<Rightarrow> (flash ''Access unauthorized.'' ''danger'' st, Redirect ''/'')
           | Some u \<Rightarrow>
               if i \<in> set (following st (uid u)) then (st, Unauthorized)
               else (flash ''Access unauthorized.'' ''danger'' st, Redirect ''/'')))"
  by (auto simp add: stop_following_def no_token_csrf split: option.splits
        dest: User_query_get_uid)

lemma no_token_like:
  "\<not> csrf_token_ok req \<Longrightarrow>
   like st req i =
     (case form_came_from req of
        None \<Rightarrow> (st, BadRequest)
      | Some _ \<Rightarrow>
          (case add_user_to_g st of
             None \<Rightarrow> (flash ''Access unauthorized.'' ''danger'' st, Redirect ''/'')
           | Some _ \<Rightarrow> (st, Unauthorized)))"
  by (simp add: like_def no_token_csrf split: option.splits)

lemma no_token_remove_like:
  "\<not> csrf_token_ok req \<Longrightarrow>
   remove_like st req i =
     (case form_came_from req of
        None \<Rightarrow> (st, BadRequest)
      | Some _ \<Rightarrow>
          (case add_user_to_g st of
             None \<Rightarrow> (flash ''Access unauthorized.'' ''danger'' st, Redirect ''/'')
           | Some _ \<Rightarrow> (st, Unauthorized)))"
  by (simp add: remove_like_def no_token_csrf split: option.splits)

lemma no_token_add_message:
  "\<not> csrf_token_ok req \<Longrightarrow>
   add_message st req =
     (case add_user_to_g st of
        None \<Rightarrow> (flash ''Access unauthorized.'' ''danger'' st, Redirect ''/'')
      | Some _ \<Rightarrow> (st, Render ''messages/create.html''))"
  by (simp add: add_message_def no_token_form split: option.splits)

lemma no_token_profile_edit:
  "\<not> csrf_token_ok req \<Longrightarrow>
   handle_user_profile_edit e st req =
     (case add_user_to_g st of
        None \<Rightarrow> (flash ''Access unauthorized.'' ''danger'' st, Redirect ''/'')
      | Some _ \<Rightarrow> (flash ''Invalid password'' ''message'' st, Render ''users/edit.html''))"
  by (simp add: handle_user_profile_edit_def no_token_form split: option.splits)

lemmas no_token_handlers =
  no_token_logout no_token_delete_user no_token_start_following no_token_stop_following
  no_token_like no_token_remove_like no_token_add_message no_token_profile_edit

text \<open>
  C2. A request without a valid CSRF token, on logout, delete user, follow,
  stop-following, like, remove-like, add message and profile edit: the tables and the
  logged-in user of the session stay as they were (at most a message is flashed). Logout
  answers 401, logged in or not. Stop-following of a user id that does not exist answers
  404; like and remove-like of a form without a \<^verbatim>\<open>came-from\<close> field answer 400.
  Otherwise an anonymous request to the seven handlers other than logout is redirected to
  the home page with \<^verbatim>\<open>Access unauthorized.\<close>, and so is stop-following of a user the
  requester does not follow; a logged-in user gets 401 from delete user, follow,
  stop-following of a followed user, like and remove-like, while add message and profile
  edit render their form again instead (profile edit with \<^verbatim>\<open>Invalid password\<close> flashed).
\<close>

theorem no_token_no_change:
  assumes "\<not> csrf_token_ok req"
  shows "logout st req = (st, Unauthorized) \<and>
    unchanged st (fst (delete_user st req)) \<and>
    unchanged st (fst (start_following st req i)) \<and>
    unchanged st (fst (stop_following st req i)) \<and>
    unchanged st (fst (like st req j)) \<and>
    unchanged st (fst (remove_like st req j)) \<and>
    unchanged st (fst (add_message st req)) \<and>
    unchanged st (fst (handle_user_profile_edit e st req)) \<and>
    (\<forall>u. add_user_to_g st = Some u \<longrightarrow>
       delete_user st req = (st, Unauthorized) \<and>
       start_following st req i = (st, Unauthorized) \<and>
       stop_following st req i =
         (if User_query_get st i = None then (st, NotFound)
          else if i \<in> set (following st (uid u)) then (st, Unauthorized)
          else (flash ''Access unauthorized.'' ''danger'' st, Redirect ''/'')) \<and>
       like st req j =
         (if form_came_from req = None then (st, BadRequest) else (st, Unauthorized)) \<and>
       remove_like st req j =
         (if form_came_from req = None then (st, BadRequest) else (st, Unauthorized)) \<and>
       add_message st req = (st, Render ''messages/create.html'') \<and>
       handle_user_profile_edit e st req =
         (flash ''Invalid password'' ''message'' st, Render ''users/edit.html'')) \<and>
    (add_user_to_g st = None \<longrightarrow>
       delete_user st req = (flash ''Access unauthorized.'' ''danger'' st, Redirect ''/'') \<and>
       start_following st req i = (flash ''Access unauthorized.'' ''danger'' st, Redirect ''/'') \<and>
       stop_following st req i =
         (if User_query_get st i = None then (st, NotFound)
          else (flash ''Access unauthorized.'' ''danger'' st, Redirect ''/'')) \<and>
       like st req j =
         (if form_came_from req = None then (st, BadRequest)
          else (flash ''Access unauthorized.'' ''danger'' st, Redirect ''/'')) \<and>
       remove_like st req j =
         (if form_came_from req = None then (st, BadRequest)
          else (flash ''Access unauthorized.'' ''danger'' st, Redirect ''/'')) \<and>
       add_message st req = (flash ''Access unauthorized.'' ''danger'' st, Redirect ''/'') \<and>
       handle_user_profile_edit e st req =
         (flash ''Access unauthorized.'' ''danger'' st, Redirect ''/''))"
  using assms by (auto simp: no_token_handlers split: option.splits)

theorem no_token_no_change_witness:
  "\<not> csrf_token_ok forged_req \<and>
   add_user_to_g following_db = Some u1 \<and>
   logout following_db forged_req = (following_db, Unauthorized) \<and>
   delete_user following_db forged_req = (following_db, Unauthorized) \<and>
   start_following following_db forged_req 2 = (following_db, Unauthorized) \<and>
   stop_following following_db forged_req 2 = (following_db, Unauthorized) \<and>
   like following_db forged_req 2 = (following_db, Unauthorized) \<and>
   remove_like following_db forged_req 2 = (following_db, Unauthorized) \<and>
   add_message following_db forged_req = (following_db, Render ''messages/create.html'') \<and>
   handle_user_profile_edit test_env following_db forged_req =
     (flash ''Invalid password'' ''message'' following_db, Render ''users/edit.html'') \<and>
   add_user_to_g (test_db None) = None \<and>
   logout (test_db None) forged_req = (test_db None, Unauthorized) \<and>
   delete_user (test_db None) forged_req =
     (flash ''Access unauthorized.'' ''danger'' (test_db None), Redirect ''/'') \<and>
   stop_following (test_db None) forged_req 2 =
     (flash ''Access unauthorized.'' ''danger'' (test_db None), Redirect ''/'') \<and>
   stop_following (test_db None) forged_req 3 = (test_db None, NotFound) \<and>
   like (test_db None) forged_req 1 =
     (flash ''Access unauthorized.'' ''danger'' (test_db None), Redirect ''/'') \<and>
   remove_like (test_db None) forged_req 1 =
     (flash ''Access unauthorized.'' ''danger'' (test_db None), Redirect ''/'')"
proof -
  have t: "\<not> csrf_token_ok forged_req"
    by (simp add: forged_req_def post_req_def)
  have q: "User_query_get following_db 2 \<noteq> None"
    by (simp add: User_query_get_def fixture_defs)
  have f: "2 \<in> set (following following_db (uid u1))"
    by (simp add: following_def fixture_defs)
  have c: "form_came_from forged_req \<noteq> None"
    by (simp add: forged_req_def post_req_def)
  have n: "add_user_to_g (test_db None) = None"
    by (simp add: add_user_to_g_def test_db_def)
  have q2: "User_query_get (test_db None) 2 \<noteq> None"
    by (simp add: User_query_get_def fixture_defs)
  have q3: "User_query_get (test_db None) 3 = None"
    by (simp add: User_query_get_def fixture_defs)
  show ?thesis
    using no_token_no_change [OF t, of following_db 2 2 test_env]
      no_token_no_change [OF t, of "test_db None" 2 1 test_env]
      no_token_no_change [OF t, of "test_db None" 3 1 test_env]
      following_db_g_user t q f c n q2 q3
    by simp
qed

text \<open>
  Not every handler answers a missing token with 401: add message renders its form again.
\<close>

theorem add_message_forged_request:
  "\<not> csrf_token_ok forged_req \<and>
   add_user_to_g (test_db (Some 1)) = Some u1 \<and>
   add_message (test_db (Some 1)) forged_req =
     (test_db (Some 1), Render ''messages/create.html'') \<and>
   snd (add_message (test_db (Some 1)) forged_req) \<noteq> Unauthorized"
  by (simp add: add_message_def fixture_g_user_1 form_validate_on_submit_def
        del: One_nat_def)
     (simp add: forged_req_def post_req_def)

end
